theory Spec2Isabelle
  imports Complex_Main
begin

section \<open>Python values used by the insurance decision path\<close>

text \<open>
  Strings are lists of code points below 256. A dictionary entry is in one of three
  states: the key is missing, the key holds \<^verbatim>\<open>None\<close>, or the key holds a value of
  the type the data model gives it. \<^verbatim>\<open>d.get(k, default)\<close> tells the first two apart:
  a missing key yields the default, a key holding \<^verbatim>\<open>None\<close> yields \<^verbatim>\<open>None\<close>.
\<close>

datatype 'a pyfield = Missing | PyNone | Val 'a

text \<open>The result of \<^verbatim>\<open>d.get(k, default)\<close>: \<open>None\<close> stands for Python's \<^verbatim>\<open>None\<close>.\<close>

fun dict_get :: "'a pyfield \<Rightarrow> 'a \<Rightarrow> 'a option" where
  "dict_get Missing d = Some d"
| "dict_get PyNone d = None"
| "dict_get (Val v) d = Some v"

datatype py_error = TypeError string | AttributeError string | IndexError string

fun error_message :: "py_error \<Rightarrow> string" where
  "error_message (TypeError m) = m"
| "error_message (AttributeError m) = m"
| "error_message (IndexError m) = m"

subsection \<open>Strings\<close>

definition lower_char :: "char \<Rightarrow> char" where
  "lower_char c =
     (let n = of_char c :: nat
      in if (65 \<le> n \<and> n \<le> 90) \<or> (192 \<le> n \<and> n \<le> 222 \<and> n \<noteq> 215)
         then char_of (n + 32) else c)"

definition lower :: "string \<Rightarrow> string" where
  "lower s = map lower_char s"

fun starts_with :: "string \<Rightarrow> string \<Rightarrow> bool" where
  "starts_with [] s = True"
| "starts_with (p # ps) [] = False"
| "starts_with (p # ps) (c # cs) = (p = c \<and> starts_with ps cs)"

text \<open>\<^verbatim>\<open>sub in s\<close> on strings: \<open>sub\<close> occurs in \<open>s\<close> as a contiguous substring.\<close>

fun str_in :: "string \<Rightarrow> string \<Rightarrow> bool" where
  "str_in sub [] = (sub = [])"
| "str_in sub (c # cs) = (starts_with sub (c # cs) \<or> str_in sub cs)"

definition digit_char :: "nat \<Rightarrow> char" where
  "digit_char d = char_of (48 + d)"

fun dec_digits :: "nat \<Rightarrow> string" where
  "dec_digits n = (if n < 10 then [digit_char n] else dec_digits (n div 10) @ [digit_char (n mod 10)])"

declare dec_digits.simps [simp del]

text \<open>\<^verbatim>\<open>str(n)\<close> for an integer, as an f-string renders it.\<close>

definition str_int :: "int \<Rightarrow> string" where
  "str_int i = (if i < 0 then CHR ''-'' # dec_digits (nat (- i)) else dec_digits (nat i))"

fun fmt_int :: "int option \<Rightarrow> string" where
  "fmt_int None = ''None''"
| "fmt_int (Some i) = str_int i"

fun fmt_str :: "string option \<Rightarrow> string" where
  "fmt_str None = ''None''"
| "fmt_str (Some s) = s"

subsection \<open>Multiplying an integer by a float constant\<close>

text \<open>
  \<^verbatim>\<open>int(amount * 1.1)\<close> converts the integer to a double, multiplies in IEEE 754
  binary64 (round to nearest, ties to even) and truncates towards zero. A double
  constant is given by the pair \<open>(m, k)\<close> with value \<open>m / 2 ^ k\<close>. The exact product has
  numerator \<open>a * m\<close> over \<open>2 ^ k\<close>; rounding to 53 significant bits acts on the numerator.
  The exponent range is not modelled: every product computed here is below \<open>2 ^ 21\<close>.
\<close>

fun bit_length :: "nat \<Rightarrow> nat" where
  "bit_length n = (if n = 0 then 0 else Suc (bit_length (n div 2)))"

declare bit_length.simps [simp del]

definition round_to_53 :: "nat \<Rightarrow> nat" where
  "round_to_53 p =
     (let n = bit_length p
      in if n \<le> 53 then p
         else let s = n - 53; q = p div 2 ^ s; r = p mod 2 ^ s; h = 2 ^ (s - 1)
              in (if r > h \<or> (r = h \<and> odd q) then q + 1 else q) * 2 ^ s)"

type_synonym double_const = "nat \<times> nat"

definition float_1_1 :: double_const where
  "float_1_1 = (2476979795053773, 51)"

definition float_1_15 :: double_const where
  "float_1_15 = (2589569785738035, 51)"

definition float_0_9 :: double_const where
  "float_0_9 = (8106479329266893, 53)"

text \<open>\<^verbatim>\<open>int(a * c)\<close> for an integer \<open>a\<close> and a positive double constant \<open>c\<close>.\<close>

definition int_mul_float :: "int \<Rightarrow> double_const \<Rightarrow> int" where
  "int_mul_float a c =
     (case c of (m, k) \<Rightarrow>
        sgn a * int (round_to_53 (round_to_53 (nat \<bar>a\<bar>) * m) div 2 ^ k))"

section \<open>The decision engine\<close>

record duration =
  pd_value :: "int pyfield"
  pd_unit :: "string pyfield"

record entities =
  ent_age :: "int pyfield"
  ent_gender :: "string pyfield"
  ent_procedure :: "string pyfield"
  ent_location :: "string pyfield"
  ent_policy_duration :: "duration pyfield"

record clause =
  clause_id :: string
  clause_text :: string
  policy_name :: string
  similarity :: real

record decision_result =
  decision :: string
  amount :: "int option"
  justification :: string
  confidence :: real
  source_clauses :: "clause list"
  reasoning_steps :: "string list"

definition format_result ::
  "string \<Rightarrow> int option \<Rightarrow> string \<Rightarrow> real \<Rightarrow> clause list \<Rightarrow> string list \<Rightarrow> decision_result" where
  "format_result d a j c sc rs =
     \<lparr>decision = d, amount = a, justification = j, confidence = c,
      source_clauses = sc, reasoning_steps = rs\<rparr>"

text \<open>Truthiness of the values the engine tests with \<^verbatim>\<open>if x\<close> or \<^verbatim>\<open>x and ...\<close>.\<close>

fun truthy_int :: "int option \<Rightarrow> bool" where
  "truthy_int None = False"
| "truthy_int (Some n) = (n \<noteq> 0)"

fun truthy_str :: "string option \<Rightarrow> bool" where
  "truthy_str None = False"
| "truthy_str (Some s) = (s \<noteq> [])"

text \<open>A dictionary is true when it has a key; the empty dictionary is the default.\<close>

definition empty_duration :: duration where
  "empty_duration = \<lparr>pd_value = Missing, pd_unit = Missing\<rparr>"

fun truthy_duration :: "duration option \<Rightarrow> bool" where
  "truthy_duration None = False"
| "truthy_duration (Some d) = (pd_value d \<noteq> Missing \<or> pd_unit d \<noteq> Missing)"

text \<open>A name in single quotes, as the interpreter's messages print it.\<close>

definition quoted :: "string \<Rightarrow> string" where
  "quoted s = CHR 0x27 # s @ [CHR 0x27]"

definition not_supported :: "string \<Rightarrow> string" where
  "not_supported oper =
     quoted oper @ '' not supported between instances of '' @ quoted ''NoneType'' @ '' and '' @ quoted ''int''"

text \<open>\<^verbatim>\<open>value * n\<close> and the comparisons of a value that may be \<^verbatim>\<open>None\<close> with an integer.\<close>

fun py_mul :: "int option \<Rightarrow> int \<Rightarrow> py_error + int" where
  "py_mul None n =
     Inl (TypeError (''unsupported operand type(s) for *: '' @ quoted ''NoneType'' @ '' and '' @ quoted ''int''))"
| "py_mul (Some v) n = Inr (v * n)"

fun py_gt :: "int option \<Rightarrow> int \<Rightarrow> py_error + bool" where
  "py_gt None n = Inl (TypeError (not_supported ''>''))"
| "py_gt (Some v) n = Inr (v > n)"

fun py_lt :: "int option \<Rightarrow> int \<Rightarrow> py_error + bool" where
  "py_lt None n = Inl (TypeError (not_supported ''<''))"
| "py_lt (Some v) n = Inr (v < n)"

text \<open>\<^verbatim>\<open>policy_duration.get(key, default)\<close> on the local that may hold \<^verbatim>\<open>None\<close>.\<close>

fun duration_get_value :: "duration option \<Rightarrow> py_error + int option" where
  "duration_get_value None = Inl (AttributeError (quoted ''NoneType'' @ '' object has no attribute '' @ quoted ''get''))"
| "duration_get_value (Some d) = Inr (dict_get (pd_value d) 0)"

fun duration_get_unit :: "duration option \<Rightarrow> py_error + string option" where
  "duration_get_unit None = Inl (AttributeError (quoted ''NoneType'' @ '' object has no attribute '' @ quoted ''get''))"
| "duration_get_unit (Some d) = Inr (dict_get (pd_unit d) [])"

subsection \<open>Locals of \<^verbatim>\<open>make_decision\<close>\<close>

text \<open>
  The locals \<^verbatim>\<open>decision\<close>, \<^verbatim>\<open>amount\<close>, \<^verbatim>\<open>justification\<close>, \<^verbatim>\<open>confidence\<close>,
  \<^verbatim>\<open>source_clauses\<close> and \<^verbatim>\<open>reasoning_steps\<close> are what \<^verbatim>\<open>_format_result\<close> packs, so
  the record of the result also carries them while the function runs.
\<close>

definition initial_result :: decision_result where
  "initial_result =
     format_result ''Rejected'' None ''No matching coverage found'' 0.5 [] []"

definition add_step :: "string \<Rightarrow> decision_result \<Rightarrow> decision_result" where
  "add_step s r = r\<lparr>reasoning_steps := reasoning_steps r @ [s]\<rparr>"

text \<open>
  \<^verbatim>\<open>entities.get("procedure", "").lower() if entities.get("procedure") else ""\<close>
\<close>

fun procedure_of :: "string pyfield \<Rightarrow> string" where
  "procedure_of (Val s) = (if s \<noteq> [] then lower s else [])"
| "procedure_of PyNone = []"
| "procedure_of Missing = []"

text \<open>Lines 78 to 87: the policy duration in days.\<close>

definition duration_days_of ::
  "duration option \<Rightarrow> decision_result \<Rightarrow> py_error + (int \<times> decision_result)" where
  "duration_days_of policy_duration r =
     (if truthy_duration policy_duration then
        (case duration_get_value policy_duration of
           Inl e \<Rightarrow> Inl e
         | Inr v \<Rightarrow>
            (case duration_get_unit policy_duration of
               Inl e \<Rightarrow> Inl e
             | Inr unit \<Rightarrow>
                (case (if unit = Some ''month'' then py_mul v 30
                       else if unit = Some ''year'' then py_mul v 365
                       else Inr 0) of
                   Inl e \<Rightarrow> Inl e
                 | Inr duration_days \<Rightarrow>
                     Inr (duration_days,
                          add_step (''Policy duration: '' @ str_int duration_days @ '' days'') r))))
      else Inr (0, r))"

text \<open>Line 90: \<^verbatim>\<open>age and (age < 18 or age > 70)\<close>.\<close>

fun age_out_of_range :: "int option \<Rightarrow> bool" where
  "age_out_of_range None = False"
| "age_out_of_range (Some a) = (a \<noteq> 0 \<and> (a < 18 \<or> a > 70))"

definition clause_BAJ_003 :: "real \<Rightarrow> clause" where
  "clause_BAJ_003 sim =
     \<lparr>clause_id = ''BAJ-003'',
      clause_text = ''Day care procedures covered where treatment is less than 24 hours'',
      policy_name = ''Bajaj Allianz Global Health Care'',
      similarity = sim\<rparr>"

definition clause_HDFC_001 :: "real \<Rightarrow> clause" where
  "clause_HDFC_001 sim =
     \<lparr>clause_id = ''HDFC-001'',
      clause_text = ''Critical illness coverage includes cancer, CABG, heart attack, stroke, kidney failure'',
      policy_name = ''HDFC Ergo Easy Health'',
      similarity = sim\<rparr>"

text \<open>Lines 106 to 131: the knee branch.\<close>

definition knee_logic ::
  "int option \<Rightarrow> duration option \<Rightarrow> int \<Rightarrow> decision_result \<Rightarrow> py_error + decision_result" where
  "knee_logic age policy_duration duration_days r0 =
     (let r = add_step ''Processing knee surgery claim'' r0;
          required_waiting = 90
      in if duration_days \<ge> required_waiting then
           (case py_gt age 45 of
              Inl e \<Rightarrow> Inl e
            | Inr older \<Rightarrow>
               (case duration_get_value policy_duration of
                  Inl e \<Rightarrow> Inl e
                | Inr v \<Rightarrow>
                   (case duration_get_unit policy_duration of
                      Inl e \<Rightarrow> Inl e
                    | Inr u \<Rightarrow>
                       Inr (add_step
                              (''Approved: Waiting period satisfied ('' @ str_int duration_days
                                 @ '' >= '' @ str_int required_waiting @ '' days)'')
                              (r\<lparr>decision := ''Approved'',
                                 amount := Some (if older then 150000 else 120000),
                                 confidence := 0.85,
                                 justification :=
                                   ''Knee surgery is covered under day care procedures. Policy duration of ''
                                     @ fmt_int v @ '' '' @ fmt_str u @ '' meets the ''
                                     @ str_int required_waiting @ ''-day waiting period requirement.'',
                                 source_clauses := [clause_BAJ_003 0.85]\<rparr>)))))
         else
           Inr (add_step
                  (''Rejected: Waiting period not satisfied ('' @ str_int duration_days
                     @ '' < '' @ str_int required_waiting @ '' days)'')
                  (r\<lparr>decision := ''Rejected'',
                     justification :=
                       ''Policy duration of '' @ str_int duration_days
                         @ '' days is less than the required '' @ str_int required_waiting
                         @ ''-day waiting period for knee surgery.'',
                     confidence := 0.9\<rparr>)))"

text \<open>Lines 134 to 149: heart, cardiac, CABG.\<close>

definition heart_logic :: "decision_result \<Rightarrow> decision_result" where
  "heart_logic r0 =
     (let r = add_step ''Processing heart surgery claim'' r0
      in add_step ''Approved: Critical illness coverage applies''
           (r\<lparr>decision := ''Approved'',
              amount := Some 500000,
              confidence := 0.9,
              justification :=
                ''Heart surgery is covered under critical illness benefits with no waiting period.'',
              source_clauses := [clause_HDFC_001 0.9]\<rparr>))"

text \<open>Lines 152 to 167: cancer.\<close>

definition cancer_logic :: "decision_result \<Rightarrow> decision_result" where
  "cancer_logic r0 =
     (let r = add_step ''Processing cancer treatment claim'' r0
      in add_step ''Approved: Cancer covered under critical illness''
           (r\<lparr>decision := ''Approved'',
              amount := Some 1000000,
              confidence := 0.95,
              justification :=
                ''Cancer treatment is fully covered under critical illness benefits with no waiting period.'',
              source_clauses := [clause_HDFC_001 0.95]\<rparr>))"

text \<open>Lines 170 to 193: eye, cataract.\<close>

definition eye_logic :: "int \<Rightarrow> decision_result \<Rightarrow> decision_result" where
  "eye_logic duration_days r0 =
     (let r = add_step ''Processing eye surgery claim'' r0;
          required_waiting = 30
      in if duration_days \<ge> required_waiting then
           add_step ''Approved: Eye surgery waiting period satisfied''
             (r\<lparr>decision := ''Approved'',
                amount := Some 60000,
                confidence := 0.8,
                justification :=
                  ''Eye surgery is covered under day care procedures. Policy duration meets the ''
                    @ str_int required_waiting @ ''-day waiting period.'',
                source_clauses := [clause_BAJ_003 0.8]\<rparr>)
         else
           add_step ''Rejected: Eye surgery waiting period not satisfied''
             (r\<lparr>decision := ''Rejected'',
                justification :=
                  ''Policy duration of '' @ str_int duration_days
                    @ '' days is less than the required '' @ str_int required_waiting
                    @ ''-day waiting period for eye surgery.'',
                confidence := 0.85\<rparr>))"

text \<open>The \<^verbatim>\<open>if\<close>/\<^verbatim>\<open>elif\<close> chain of lines 106 to 193, in the source's order.\<close>

definition procedure_logic ::
  "string \<Rightarrow> int option \<Rightarrow> duration option \<Rightarrow> int \<Rightarrow> decision_result \<Rightarrow> py_error + decision_result" where
  "procedure_logic procedure age policy_duration duration_days r =
     (if str_in ''knee'' procedure then knee_logic age policy_duration duration_days r
      else if str_in ''heart'' procedure \<or> str_in ''cardiac'' procedure \<or> str_in ''cabg'' procedure
        then Inr (heart_logic r)
      else if str_in ''cancer'' procedure then Inr (cancer_logic r)
      else if str_in ''eye'' procedure \<or> str_in ''cataract'' procedure
        then Inr (eye_logic duration_days r)
      else Inr r)"

text \<open>Lines 196 to 209: the adjustments of an approved amount.\<close>

definition metro_cities :: "string list" where
  "metro_cities = [''mumbai'', ''delhi'', ''bangalore'', ''chennai'', ''kolkata'', ''hyderabad'']"

fun in_metro :: "string option \<Rightarrow> bool" where
  "in_metro None = False"
| "in_metro (Some l) = (l \<noteq> [] \<and> lower l \<in> set metro_cities)"

fun is_senior :: "int option \<Rightarrow> bool" where
  "is_senior None = False"
| "is_senior (Some a) = (a \<noteq> 0 \<and> a > 60)"

fun is_young :: "int option \<Rightarrow> bool" where
  "is_young None = False"
| "is_young (Some a) = (a \<noteq> 0 \<and> a < 25)"

definition metro_adjust :: "string option \<Rightarrow> int \<Rightarrow> decision_result \<Rightarrow> decision_result" where
  "metro_adjust location a r =
     (if in_metro location
      then add_step ''Metro city adjustment applied: +10%''
             (r\<lparr>amount := Some (int_mul_float a float_1_1)\<rparr>)
      else r)"

definition age_adjust :: "int option \<Rightarrow> int \<Rightarrow> decision_result \<Rightarrow> decision_result" where
  "age_adjust age a r =
     (if is_senior age
      then add_step ''Senior citizen adjustment applied: +15%''
             (r\<lparr>amount := Some (int_mul_float a float_1_15)\<rparr>)
      else if is_young age
      then add_step ''Young adult discount applied: -10%''
             (r\<lparr>amount := Some (int_mul_float a float_0_9)\<rparr>)
      else r)"

definition apply_business_rules ::
  "int option \<Rightarrow> string option \<Rightarrow> decision_result \<Rightarrow> decision_result" where
  "apply_business_rules age location r =
     (case amount r of
        None \<Rightarrow> r
      | Some a \<Rightarrow>
          if decision r = ''Approved'' \<and> a \<noteq> 0 then
            (let r1 = metro_adjust location a r
             in case amount r1 of
                  None \<Rightarrow> r1
                | Some a1 \<Rightarrow> age_adjust age a1 r1)
          else r)"

definition final_step :: "decision_result \<Rightarrow> decision_result" where
  "final_step r =
     add_step (''Final decision: '' @ decision r @ '', Amount: '' @ fmt_int (amount r)) r"

subsection \<open>\<^verbatim>\<open>make_decision\<close>\<close>

text \<open>Lines 63 to 76: the initial locals and the first reasoning step.\<close>

definition start_result :: "int option \<Rightarrow> string option \<Rightarrow> string \<Rightarrow> decision_result" where
  "start_result age gender procedure =
     add_step (''Analyzing query for: Age='' @ fmt_int age @ '', Gender=''
                 @ fmt_str gender @ '', Procedure='' @ procedure) initial_result"

text \<open>
  Lines 89 to 213: the age gate, the procedure-presence gate, the procedure branches and
  the adjustments, on the locals computed before them.
\<close>

definition decision_gates ::
  "string \<Rightarrow> int option \<Rightarrow> string option \<Rightarrow> duration option \<Rightarrow> int \<Rightarrow> decision_result
     \<Rightarrow> py_error + decision_result" where
  "decision_gates procedure age location policy_duration duration_days r =
     (if age_out_of_range age then
        Inr (add_step ''Age validation failed''
               (r\<lparr>decision := ''Rejected'',
                  justification :=
                    ''Age '' @ fmt_int age @ '' is outside the eligible range (18-70 years)'',
                  confidence := 0.95\<rparr>))
      else if procedure = [] then
        Inr (add_step ''No procedure identified''
               (r\<lparr>decision := ''Rejected'',
                  justification := ''No medical procedure identified in the query'',
                  confidence := 0.8\<rparr>))
      else
        (case procedure_logic procedure age policy_duration duration_days r of
           Inl e \<Rightarrow> Inl e
         | Inr r' \<Rightarrow> Inr (final_step (apply_business_rules age location r'))))"

text \<open>The body of the \<^verbatim>\<open>try\<close> block; \<open>Inl\<close> is a raised exception.\<close>

definition make_decision_body :: "entities \<Rightarrow> clause list \<Rightarrow> py_error + decision_result" where
  "make_decision_body entities relevant_clauses =
     (let procedure = procedure_of (ent_procedure entities);
          policy_duration = dict_get (ent_policy_duration entities) empty_duration;
          age = dict_get (ent_age entities) 0;
          gender = dict_get (ent_gender entities) [];
          location = dict_get (ent_location entities) []
      in case duration_days_of policy_duration (start_result age gender procedure) of
           Inl e \<Rightarrow> Inl e
         | Inr (duration_days, r) \<Rightarrow>
             decision_gates procedure age location policy_duration duration_days r)"

text \<open>The \<^verbatim>\<open>except Exception\<close> handler turns every exception into the fail-safe result.\<close>

definition error_result :: "py_error \<Rightarrow> decision_result" where
  "error_result e =
     format_result ''Rejected'' None ''Error processing claim'' 0.1 []
       [''Error: '' @ error_message e]"

definition make_decision :: "entities \<Rightarrow> clause list \<Rightarrow> decision_result" where
  "make_decision entities relevant_clauses =
     (case make_decision_body entities relevant_clauses of
        Inl e \<Rightarrow> error_result e
      | Inr r \<Rightarrow> r)"

section \<open>The text chunker\<close>

subsection \<open>String operations\<close>

text \<open>\<^verbatim>\<open>str.isspace\<close> and the regular expression class \<^verbatim>\<open>\s\<close>, on code points below 256.\<close>

definition is_space :: "char \<Rightarrow> bool" where
  "is_space c =
     (let n = of_char c :: nat
      in (9 \<le> n \<and> n \<le> 13) \<or> (28 \<le> n \<and> n \<le> 32) \<or> n = 133 \<or> n = 160)"

definition strip :: "string \<Rightarrow> string" where
  "strip s = rev (dropWhile is_space (rev (dropWhile is_space s)))"

definition newline :: char where
  "newline = CHR 0x0A"

text \<open>\<^verbatim>\<open>re.sub(r' +', ' ', text)\<close>: every run of spaces becomes one space.\<close>

fun collapse_spaces :: "string \<Rightarrow> string" where
  "collapse_spaces (c # d # cs) =
     (if c = CHR '' '' \<and> d = CHR '' '' then collapse_spaces (d # cs)
      else c # collapse_spaces (d # cs))"
| "collapse_spaces cs = cs"

text \<open>
  \<^verbatim>\<open>re.sub(r'\n\s*\n\s*\n+', '\n\n', text)\<close>. A match starts at a newline whose
  following run of whitespace holds at least two more newlines, and ends with the last
  newline of that run: the first \<^verbatim>\<open>\s*\<close> is greedy and backs off to the second last
  newline, the second one to the last. The scan goes on behind the match. The first
  argument counts the characters of a match still to be skipped.
\<close>

definition after_last_newline :: "string \<Rightarrow> string" where
  "after_last_newline run = rev (takeWhile (\<lambda>c. c \<noteq> newline) (rev run))"

fun collapse_newlines_from :: "nat \<Rightarrow> string \<Rightarrow> string" where
  "collapse_newlines_from n [] = []"
| "collapse_newlines_from (Suc n) (c # cs) = collapse_newlines_from n cs"
| "collapse_newlines_from 0 (c # cs) =
     (let run = takeWhile is_space cs
      in if c = newline \<and> 2 \<le> count_list run newline
         then newline # newline #
                collapse_newlines_from (length run - length (after_last_newline run)) cs
         else c # collapse_newlines_from 0 cs)"

definition collapse_newlines :: "string \<Rightarrow> string" where
  "collapse_newlines s = collapse_newlines_from 0 s"

definition preprocess_text :: "string \<Rightarrow> string" where
  "preprocess_text text = strip (collapse_newlines (collapse_spaces text))"

definition py_len :: "string \<Rightarrow> int" where
  "py_len s = int (length s)"

text \<open>\<^verbatim>\<open>s[start:end]\<close>: a negative index counts from the end, both are clamped.\<close>

definition clamp_index :: "int \<Rightarrow> int \<Rightarrow> int" where
  "clamp_index n i = (if i < 0 then max (i + n) 0 else min i n)"

definition py_slice :: "string \<Rightarrow> int \<Rightarrow> int \<Rightarrow> string" where
  "py_slice s start end' =
     (let lo = clamp_index (py_len s) start; hi = clamp_index (py_len s) end'
      in if lo < hi then take (nat (hi - lo)) (drop (nat lo) s) else [])"

text \<open>\<^verbatim>\<open>s[i]\<close>: a negative index counts from the end, out of range raises.\<close>

definition py_index :: "string \<Rightarrow> int \<Rightarrow> py_error + char" where
  "py_index s i =
     (let j = (if i < 0 then i + py_len s else i)
      in if 0 \<le> j \<and> j < py_len s then Inr (s ! nat j)
         else Inl (IndexError ''string index out of range''))"

text \<open>\<^verbatim>\<open>c in '.!?'\<close> for a single character.\<close>

definition is_terminator :: "char \<Rightarrow> bool" where
  "is_terminator c = (c = CHR ''.'' \<or> c = CHR ''!'' \<or> c = CHR ''?'')"

subsection \<open>\<^verbatim>\<open>split_text_optimized\<close>\<close>

text \<open>
  The \<^verbatim>\<open>for\<close> loop over \<^verbatim>\<open>range(end, lo, -1)\<close>: \<open>i\<close> runs from the naive boundary down
  to \<open>lo + 1\<close>; the first terminator found sets the boundary behind it.
\<close>

function scan_back :: "string \<Rightarrow> int \<Rightarrow> int \<Rightarrow> int \<Rightarrow> py_error + int" where
  "scan_back text i lo end' =
     (if lo < i then
        (case py_index text i of
           Inl e \<Rightarrow> Inl e
         | Inr c \<Rightarrow> if is_terminator c then Inr (i + 1) else scan_back text (i - 1) lo end')
      else Inr end')"
  by pat_completeness auto
termination
  by (relation "measure (\<lambda>(text, i, lo, end'). nat (i - lo))") auto

declare scan_back.simps [simp del]

text \<open>Lines 148 to 156: the boundary of the chunk that starts at \<open>start\<close>.\<close>

definition find_boundary :: "string \<Rightarrow> int \<Rightarrow> int \<Rightarrow> py_error + int" where
  "find_boundary text start chunk_size =
     (let end' = start + chunk_size
      in if end' < py_len text
         then scan_back text end' (max (start + chunk_size div 2) (end' - 100)) end'
         else Inr end')"

definition max_chunks :: nat where
  "max_chunks = 40"

text \<open>
  The \<^verbatim>\<open>while\<close> loop. It need not end (a chunk size of 0 never advances), so the model
  counts the iterations it may still run: \<open>None\<close> means that the fuel ran out.
\<close>

text \<open>Lines 160 and 161: a chunk is kept when it is longer than 50 characters.\<close>

definition add_chunk :: "string list \<Rightarrow> string \<Rightarrow> string list" where
  "add_chunk chunks chunk =
     (if chunk \<noteq> [] \<and> length chunk > 50 then chunks @ [chunk] else chunks)"

text \<open>Line 163: \<^verbatim>\<open>start = end - self.overlap if end > self.overlap else end\<close>.\<close>

definition next_start :: "int \<Rightarrow> int \<Rightarrow> int" where
  "next_start overlap end' = (if end' > overlap then end' - overlap else end')"

fun split_loop ::
  "nat \<Rightarrow> int \<Rightarrow> int \<Rightarrow> string \<Rightarrow> int \<Rightarrow> string list \<Rightarrow> (py_error + string list) option" where
  "split_loop 0 chunk_size overlap text start chunks = None"
| "split_loop (Suc fuel) chunk_size overlap text start chunks =
     (if start < py_len text \<and> length chunks < max_chunks then
        (case find_boundary text start chunk_size of
           Inl e \<Rightarrow> Some (Inl e)
         | Inr end' \<Rightarrow>
            (let chunk = strip (py_slice text start end');
                 chunks' = add_chunk chunks chunk;
                 start' = next_start overlap end'
             in if start' \<ge> py_len text then Some (Inr chunks')
                else split_loop fuel chunk_size overlap text start' chunks'))
      else Some (Inr chunks))"

text \<open>The method: the \<^verbatim>\<open>except\<close> handler returns the empty list.\<close>

definition split_text_optimized :: "nat \<Rightarrow> int \<Rightarrow> int \<Rightarrow> string \<Rightarrow> string list option" where
  "split_text_optimized fuel chunk_size overlap text =
     (if text = [] \<or> length (strip text) < 50 then Some []
      else
        (case split_loop fuel chunk_size overlap (preprocess_text text) 0 [] of
           None \<Rightarrow> None
         | Some (Inl e) \<Rightarrow> Some []
         | Some (Inr chunks) \<Rightarrow> Some chunks))"

section \<open>Concrete inputs\<close>

text \<open>A senior claimant in Mumbai asking for knee surgery after three months.\<close>

definition senior_mumbai_knee :: entities where
  "senior_mumbai_knee =
     \<lparr>ent_age = Val 65, ent_gender = Val ''Male'', ent_procedure = Val ''knee surgery'',
      ent_location = Val ''Mumbai'',
      ent_policy_duration = Val \<lparr>pd_value = Val 3, pd_unit = Val ''month''\<rparr>\<rparr>"




text \<open>No age in the query: the extractor leaves the key at \<^verbatim>\<open>None\<close>.\<close>

definition no_age_knee :: entities where
  "no_age_knee =
     \<lparr>ent_age = PyNone, ent_gender = PyNone, ent_procedure = Val ''knee surgery'',
      ent_location = PyNone,
      ent_policy_duration = Val \<lparr>pd_value = Val 3, pd_unit = Val ''month''\<rparr>\<rparr>"






section \<open>Notions used to state the properties\<close>

text \<open>
  The duration conversion raises exactly when the unit is month or year and the value
  is \<^verbatim>\<open>None\<close>.
\<close>

definition duration_raises :: "duration pyfield \<Rightarrow> bool" where
  "duration_raises f =
     (case f of
        Val d \<Rightarrow> pd_value d = PyNone \<and> (pd_unit d = Val ''month'' \<or> pd_unit d = Val ''year'')
      | _ \<Rightarrow> False)"

text \<open>
  The duration in days as the specification words it: value times 30 for unit month,
  value times 365 for unit year, 0 when the duration is absent.
\<close>

definition spec_duration_days :: "duration pyfield \<Rightarrow> int" where
  "spec_duration_days f =
     (case f of
        Val d \<Rightarrow>
          (let v = (case pd_value d of Val n \<Rightarrow> n | _ \<Rightarrow> 0)
           in if pd_unit d = Val ''month'' then v * 30
              else if pd_unit d = Val ''year'' then v * 365
              else 0)
      | _ \<Rightarrow> 0)"

text \<open>The two adjustments as one function of the base amount: metro first, then age.\<close>

definition adjusted_amount :: "int option \<Rightarrow> string option \<Rightarrow> int \<Rightarrow> int" where
  "adjusted_amount age location base =
     (let a1 = (if in_metro location then int_mul_float base float_1_1 else base)
      in if is_senior age then int_mul_float a1 float_1_15
         else if is_young age then int_mul_float a1 float_0_9
         else a1)"

definition base_amounts :: "int set" where
  "base_amounts = {150000, 120000, 500000, 1000000, 60000}"

section \<open>Properties of the decision engine\<close>

subsection \<open>Evaluating the arithmetic\<close>

lemma bit_length_numeral:
  "bit_length (numeral n) = Suc (bit_length (numeral n div 2))"
  "bit_length 0 = 0"
  "bit_length (Suc 0) = Suc 0"
  by (subst bit_length.simps, simp)+

lemmas float_eval =
  int_mul_float_def float_1_1_def float_1_15_def float_0_9_def round_to_53_def
  bit_length_numeral Let_def

lemma int_mul_float_150000: "int_mul_float 150000 float_1_1 = 165000"
  by (simp add: float_eval)

lemma int_mul_float_165000: "int_mul_float 165000 float_1_15 = 189749"
  by (simp add: float_eval)

lemma lower_Mumbai: "lower ''Mumbai'' = ''mumbai''"
  by code_simp

lemma lower_knee_surgery: "lower ''knee surgery'' = ''knee surgery''"
  by code_simp

lemmas engine_defs =
  make_decision_def make_decision_body_def duration_days_of_def procedure_logic_def
  decision_gates_def start_result_def
  knee_logic_def heart_logic_def cancer_logic_def eye_logic_def apply_business_rules_def
  metro_adjust_def age_adjust_def final_step_def add_step_def initial_result_def
  format_result_def error_result_def metro_cities_def Let_def

subsection \<open>Helper lemmas\<close>

lemma int_mul_float_values:
  "int_mul_float 150000 float_1_15 = 172500"
  "int_mul_float 150000 float_0_9 = 135000"
  "int_mul_float 165000 float_0_9 = 148500"
  "int_mul_float 120000 float_1_1 = 132000"
  "int_mul_float 120000 float_1_15 = 138000"
  "int_mul_float 120000 float_0_9 = 108000"
  "int_mul_float 132000 float_1_15 = 151800"
  "int_mul_float 132000 float_0_9 = 118800"
  "int_mul_float 500000 float_1_1 = 550000"
  "int_mul_float 500000 float_1_15 = 575000"
  "int_mul_float 500000 float_0_9 = 450000"
  "int_mul_float 550000 float_1_15 = 632500"
  "int_mul_float 550000 float_0_9 = 495000"
  "int_mul_float 1000000 float_1_1 = 1100000"
  "int_mul_float 1000000 float_1_15 = 1150000"
  "int_mul_float 1000000 float_0_9 = 900000"
  "int_mul_float 1100000 float_1_15 = 1265000"
  "int_mul_float 1100000 float_0_9 = 990000"
  "int_mul_float 60000 float_1_1 = 66000"
  "int_mul_float 60000 float_1_15 = 69000"
  "int_mul_float 60000 float_0_9 = 54000"
  "int_mul_float 66000 float_1_15 = 75900"
  "int_mul_float 66000 float_0_9 = 59400"
  by (simp_all add: float_eval)

lemma add_step_fields [simp]:
  "decision (add_step s r) = decision r"
  "amount (add_step s r) = amount r"
  "confidence (add_step s r) = confidence r"
  "justification (add_step s r) = justification r"
  "source_clauses (add_step s r) = source_clauses r"
  "reasoning_steps (add_step s r) = reasoning_steps r @ [s]"
  by (simp_all add: add_step_def)

lemma final_step_fields [simp]:
  "decision (final_step r) = decision r"
  "amount (final_step r) = amount r"
  "confidence (final_step r) = confidence r"
  by (simp_all add: final_step_def)

lemma start_result_fields [simp]:
  "decision (start_result age gender procedure) = ''Rejected''"
  "amount (start_result age gender procedure) = None"
  by (simp_all add: start_result_def initial_result_def format_result_def)

lemma duration_days_of_fields:
  assumes "duration_days_of pd r = Inr (days, r')"
  shows "decision r' = decision r \<and> amount r' = amount r \<and> confidence r' = confidence r"
  using assms
  by (auto simp add: duration_days_of_def split: if_splits sum.splits)


lemma duration_days_of_raises:
  assumes "duration_raises pf"
  shows "\<exists>e. duration_days_of (dict_get pf empty_duration) r = Inl e"
  using assms
  by (cases pf) (auto simp add: duration_days_of_def duration_raises_def split: pyfield.splits)

lemma apply_business_rules_fields [simp]:
  "decision (apply_business_rules age location r) = decision r"
  "confidence (apply_business_rules age location r) = confidence r"
  by (simp_all add: apply_business_rules_def metro_adjust_def age_adjust_def Let_def
      split: option.splits)

lemma apply_business_rules_amount:
  "amount (apply_business_rules age location r) =
     (case amount r of
        None \<Rightarrow> None
      | Some a \<Rightarrow> if decision r = ''Approved'' \<and> a \<noteq> 0
                  then Some (adjusted_amount age location a) else Some a)"
  by (simp add: apply_business_rules_def metro_adjust_def age_adjust_def adjusted_amount_def
      Let_def split: option.splits)

lemma adjusted_amount_pos:
  assumes "base \<in> base_amounts"
  shows "0 < adjusted_amount age location base"
  using assms
  by (auto simp add: base_amounts_def adjusted_amount_def Let_def int_mul_float_values
      int_mul_float_150000 int_mul_float_165000)

lemma lower_Nil [simp]: "lower [] = []"
  by (simp add: lower_def)

lemma lower_eq_Nil [simp]: "lower p = [] \<longleftrightarrow> p = []"
  by (simp add: lower_def)


lemma procedure_logic_outcome:
  assumes "procedure_logic p age pd days r = Inr r'"
    and "decision r = ''Rejected''" and "amount r = None"
  shows "(decision r' = ''Rejected'' \<and> amount r' = None) \<or>
         (decision r' = ''Approved'' \<and> (\<exists>b. amount r' = Some b \<and> b \<in> base_amounts))"
  using assms
  by (auto simp add: procedure_logic_def knee_logic_def heart_logic_def cancer_logic_def
      eye_logic_def base_amounts_def Let_def split: if_splits sum.splits)

lemma decision_gates_outcome:
  assumes "decision_gates p age loc pd days r = Inr res"
    and "decision r = ''Rejected''" and "amount r = None"
  shows "(decision res = ''Rejected'' \<and> amount res = None) \<or>
         (decision res = ''Approved'' \<and> (\<exists>a. amount res = Some a \<and> 0 < a))"
proof (cases "age_out_of_range age \<or> p = []")
  case True
  with assms show ?thesis
    by (auto simp add: decision_gates_def split: if_splits)
next
  case False
  with assms(1) obtain r2 where pl: "procedure_logic p age pd days r = Inr r2"
    and res: "res = final_step (apply_business_rules age loc r2)"
    by (auto simp add: decision_gates_def split: sum.splits)
  from procedure_logic_outcome [OF pl assms(2,3)] show ?thesis
    by (auto simp add: res apply_business_rules_amount base_amounts_def
        intro: adjusted_amount_pos [unfolded base_amounts_def])
qed





subsection \<open>Adjustments\<close>

text \<open>
  C4. The adjustments are applied in the order metro, then age, each on the running
  amount. The claim says each step rounds to the nearest integer and that age 65,
  Mumbai, base 150000 ends at 189750. The code truncates the double product with
  \<^verbatim>\<open>int\<close>: 150000 * 1.1 is 165000.0, and 165000 * 1.15 is the double just below
  189750, so the engine returns 189749.
\<close>

theorem senior_mumbai_knee_amount:
  "decision (make_decision senior_mumbai_knee []) = ''Approved'' \<and>
   amount (make_decision senior_mumbai_knee []) = Some 189749"
  by (simp add: engine_defs senior_mumbai_knee_def lower_Mumbai lower_knee_surgery
      int_mul_float_150000 int_mul_float_165000)

subsection \<open>Waiting periods\<close>




text \<open>
  Outside the amended C1: with the age key at \<^verbatim>\<open>None\<close>, as the extractor leaves it when
  the query has no age, the approval path of the knee branch compares \<^verbatim>\<open>None > 45\<close>,
  which raises; the handler turns a claim that meets the waiting period into the
  fail-safe rejection.
\<close>

lemma knee_without_age_raises:
  "spec_duration_days (ent_policy_duration no_age_knee) = 90 \<and>
   make_decision_body no_age_knee [] = Inl (TypeError (not_supported ''>'')) \<and>
   decision (make_decision no_age_knee []) = ''Rejected'' \<and>
   confidence (make_decision no_age_knee []) = 0.1"
  by (simp add: engine_defs no_age_knee_def lower_knee_surgery spec_duration_days_def)

subsection \<open>The age gate\<close>




subsection \<open>Critical illness\<close>




subsection \<open>Failures\<close>



subsection \<open>Amount and decision\<close>

text \<open>
  C9. For every input the result is either Rejected without an amount or Approved
  with a positive amount; so the amount is \<^verbatim>\<open>None\<close> exactly when the decision is
  Rejected, for business rejections and for the fail-safe result alike.
\<close>

theorem amount_iff_approved:
  "(decision (make_decision e cs) = ''Rejected'' \<and> amount (make_decision e cs) = None) \<or>
   (decision (make_decision e cs) = ''Approved'' \<and>
    (\<exists>a. amount (make_decision e cs) = Some a \<and> 0 < a))"
proof (cases "make_decision_body e cs")
  case (Inl err)
  then show ?thesis
    by (simp add: make_decision_def error_result_def format_result_def)
next
  case (Inr res)
  then obtain days r1 r0 where
    dd: "duration_days_of (dict_get (ent_policy_duration e) empty_duration) r0 = Inr (days, r1)"
    and r0: "decision r0 = ''Rejected''" "amount r0 = None"
    and gates: "decision_gates (procedure_of (ent_procedure e)) (dict_get (ent_age e) 0)
                  (dict_get (ent_location e) [])
                  (dict_get (ent_policy_duration e) empty_duration) days r1 = Inr res"
    unfolding make_decision_body_def Let_def
    by (auto split: sum.splits intro: start_result_fields)
  from duration_days_of_fields [OF dd] r0
  have "decision r1 = ''Rejected''" "amount r1 = None"
    by simp_all
  from decision_gates_outcome [OF gates this] Inr show ?thesis
    by (simp add: make_decision_def)
qed

end
